theory Spec2Isabelle
  imports Complex_Main
begin

section \<open>Errors and numpy floats\<close>

text \<open>
  Every exception an \<open>eval\<close> method can end with is a value. \<open>ValidationError\<close> is the
  ValueError of sklearn's \<open>check_array\<close> on malformed input, \<open>ValueError\<close> the one of
  \<open>sklearn.metrics.auc\<close>; the other names are Python's.
\<close>

datatype error =
    ValidationError
  | DegenerateInputError
  | ZeroDivisionError
  | IndexError
  | ValueError
  | UnboundLocalError

text \<open>
  Scores are real numbers. A numpy division can also yield an infinity or nan, and the
  rejection tests compare such quotients, so quotients are values of \<open>npfloat\<close>.
\<close>

datatype npfloat = Fin real | PInf | NInf | NaN

definition np_div :: "real \<Rightarrow> real \<Rightarrow> npfloat" where
  "np_div x y =
     (if y \<noteq> 0 then Fin (x / y)
      else if x = 0 then NaN
      else if 0 < x then PInf else NInf)"

text \<open>\<open>np_gt a b\<close> is numpy's \<open>a > b\<close>: false as soon as one side is nan.\<close>

fun np_gt :: "npfloat \<Rightarrow> npfloat \<Rightarrow> bool" where
  "np_gt NaN _ = False"
| "np_gt _ NaN = False"
| "np_gt (Fin a) (Fin b) = (b < a)"
| "np_gt PInf PInf = False"
| "np_gt PInf _ = True"
| "np_gt NInf _ = False"
| "np_gt (Fin a) NInf = True"
| "np_gt (Fin a) PInf = False"

section \<open>Array primitives\<close>

definition np_max :: "real list \<Rightarrow> real" where
  "np_max xs = fold max (tl xs) (hd xs)"

definition np_min :: "real list \<Rightarrow> real" where
  "np_min xs = fold min (tl xs) (hd xs)"

definition np_mean :: "real list \<Rightarrow> real" where
  "np_mean xs = sum_list xs / real (length xs)"

text \<open>\<open>ndarray.std()\<close>: the population standard deviation (\<open>ddof = 0\<close>).\<close>

definition np_std :: "real list \<Rightarrow> real" where
  "np_std xs = sqrt (sum_list (map (\<lambda>v. (v - np_mean xs)\<^sup>2) xs) / real (length xs))"

text \<open>\<open>np.argmax\<close>: the first index holding the maximum.\<close>

definition np_argmax :: "real list \<Rightarrow> nat" where
  "np_argmax xs = length (takeWhile (\<lambda>v. v \<noteq> np_max xs) xs)"

definition np_delete :: "'a list \<Rightarrow> nat \<Rightarrow> 'a list" where
  "np_delete arr i = take i arr @ drop (Suc i) arr"

text \<open>\<open>np.median\<close>: the middle of the sorted array, the mean of the two middles for an
  even length.\<close>

definition np_median :: "real list \<Rightarrow> real" where
  "np_median xs =
     (let s = sort xs; n = length xs
      in if even n then (s ! (n div 2 - 1) + s ! (n div 2)) / 2 else s ! (n div 2))"

text \<open>
  \<open>check_array(decision, ensure_2d=False)\<close> of sklearn rejects an empty array; the
  element checks (numeric, finite) hold for every real list.
\<close>

definition check_array :: "real list \<Rightarrow> error + real list" where
  "check_array decision = (if decision = [] then Inl ValidationError else Inr decision)"

text \<open>
  Modelled from the spec: \<open>normalize\<close> of \<open>thresh_utility.py\<close>, which is not among the
  sources. Section 4.1: \<open>y_i = (x_i - min x) / (max x - min x)\<close>, and the call fails
  with a DegenerateInputError when \<open>max x = min x\<close>.
\<close>

definition normalize_scores :: "real list \<Rightarrow> error + real list" where
  "normalize_scores x =
     (if x = [] then Inl ValidationError
      else if np_max x = np_min x then Inl DegenerateInputError
      else Inr (map (\<lambda>v. (v - np_min x) / (np_max x - np_min x)) x))"

text \<open>
  Modelled from the spec: \<open>cut\<close> of \<open>thresh_utility.py\<close>, which is not among the
  sources. Section 4.3: \<open>labels_i = 1\<close> if \<open>scores_i > limit\<close>, else \<open>0\<close>.
\<close>

definition cut_scores :: "real list \<Rightarrow> real \<Rightarrow> nat list" where
  "cut_scores scores limit = map (\<lambda>s. if limit < s then 1 else 0) scores"

text \<open>
  \<open>scipy.stats.t.ppf(q, df)\<close>. The quantile function itself is a parameter \<open>tq\<close>, used
  where it is finite: \<open>0 < q < 1\<close> and \<open>0 < df\<close>. Elsewhere scipy returns nan (\<open>df \<le> 0\<close>,
  \<open>q\<close> outside \<open>[0, 1]\<close>) or an infinity (\<open>q\<close> equal to 0 or 1); both critical-value
  formulas below turn an infinite \<open>t\<close> into nan (infinity over infinity), so \<open>None\<close>
  stands for every non-finite result.
\<close>

definition t_ppf :: "(real \<Rightarrow> int \<Rightarrow> real) \<Rightarrow> real \<Rightarrow> int \<Rightarrow> real option" where
  "t_ppf tq q df = (if 0 < q \<and> q < 1 \<and> 0 < df then Some (tq q df) else None)"

text \<open>
  The attribute \<open>thresh_\<close> of an instance: absent until the first \<open>eval\<close>, then the last
  threshold, or Python's \<open>None\<close> for the procedures without a scalar threshold.
\<close>

datatype thresh = Unset | PyNone | Threshold real

section \<open>GESD: generalized extreme studentized deviate (gesd.py)\<close>

datatype max_outliers_setting = Native | Cap int

record GESD =
  gesd_max_outliers :: max_outliers_setting
  gesd_alpha :: real
  gesd_thresh :: thresh

text \<open>\<open>GESD.__init__(max_outliers='native', alpha=0.05)\<close>; \<open>thresh_\<close> does not exist yet.\<close>

definition GESD_init :: "max_outliers_setting \<Rightarrow> real \<Rightarrow> GESD" where
  "GESD_init mo a = \<lparr>gesd_max_outliers = mo, gesd_alpha = a, gesd_thresh = Unset\<rparr>"

text \<open>\<open>_grubbs_stat\<close>: the largest absolute deviation from the mean over the standard
  deviation, and the index of that element.\<close>

definition grubbs_stat :: "real list \<Rightarrow> npfloat \<times> nat" where
  "grubbs_stat y =
     (let dev = map (\<lambda>v. \<bar>v - np_mean y\<bar>) y;
          max_ind = np_argmax dev;
          Gcal = np_div (np_max dev) (np_std y)
      in (Gcal, max_ind))"

text \<open>\<open>_calc_crit\<close>: \<open>alpha / (2 * size)\<close> divides a Python float by a Python int, which
  raises for \<open>size = 0\<close>.\<close>

definition calc_crit :: "(real \<Rightarrow> int \<Rightarrow> real) \<Rightarrow> nat \<Rightarrow> real \<Rightarrow> error + npfloat" where
  "calc_crit tq sz a =
     (if sz = 0 then Inl ZeroDivisionError
      else case t_ppf tq (1 - a / (2 * real sz)) (int sz - 2) of
             None \<Rightarrow> Inr NaN
           | Some t_dist \<Rightarrow>
               (let numerator = (real sz - 1) * sqrt (t_dist\<^sup>2);
                    denominator = sqrt (real sz) * sqrt (real sz - 2 + t_dist\<^sup>2)
                in Inr (np_div numerator denominator)))"

text \<open>The body of \<open>for i in range(self.max_outliers)\<close>, run \<open>k\<close> times on the working
  array and the running limit.\<close>

fun gesd_loop :: "(real \<Rightarrow> int \<Rightarrow> real) \<Rightarrow> real \<Rightarrow> nat \<Rightarrow> real list \<Rightarrow> real \<Rightarrow> error + real" where
  "gesd_loop tq a 0 arr limit = Inr limit"
| "gesd_loop tq a (Suc k) arr limit =
     (case calc_crit tq (length arr) a of
        Inl e \<Rightarrow> Inl e
      | Inr Gc \<Rightarrow>
          (case grubbs_stat arr of
             (Gs, max_index) \<Rightarrow>
               gesd_loop tq a k (np_delete arr max_index)
                 (if np_gt Gs Gc \<and> arr ! max_index < limit then arr ! max_index else limit)))"

text \<open>The number of iterations \<open>range(self.max_outliers)\<close> makes; \<open>eval\<close> has replaced
  \<open>'native'\<close> by half the length before the loop starts.\<close>

fun cap_count :: "max_outliers_setting \<Rightarrow> nat \<Rightarrow> nat" where
  "cap_count Native n = n div 2"
| "cap_count (Cap k) n = nat k"

text \<open>
  \<open>GESD.eval\<close>. The result is the outcome of the call (the labels or the exception)
  together with the instance as the call leaves it: an attribute assigned before an
  exception stays assigned.
\<close>

definition GESD_eval :: "(real \<Rightarrow> int \<Rightarrow> real) \<Rightarrow> GESD \<Rightarrow> real list \<Rightarrow> (error + nat list) \<times> GESD" where
  "GESD_eval tq self decision =
     (case check_array decision of
        Inl e \<Rightarrow> (Inl e, self)
      | Inr checked \<Rightarrow>
          (case normalize_scores checked of
             Inl e \<Rightarrow> (Inl e, self)
           | Inr decision' \<Rightarrow>
               (let self1 = (case gesd_max_outliers self of
                               Native \<Rightarrow> self\<lparr>gesd_max_outliers := Cap (int (length decision') div 2)\<rparr>
                             | Cap k \<Rightarrow> self)
                in case gesd_loop tq (gesd_alpha self1)
                          (cap_count (gesd_max_outliers self1) (length decision')) decision' 1.1 of
                     Inl e \<Rightarrow> (Inl e, self1)
                   | Inr limit \<Rightarrow> (Inr (cut_scores decision' limit), self1\<lparr>gesd_thresh := Threshold limit\<rparr>))))"

section \<open>MTT: modified Thompson Tau test (mtt.py)\<close>

record MTT =
  mtt_alpha :: real
  mtt_thresh :: thresh

definition MTT_init :: "real \<Rightarrow> MTT" where
  "MTT_init a = \<lparr>mtt_alpha = a, mtt_thresh = Unset\<rparr>"

text \<open>The rejection threshold \<open>thres\<close> of one iteration, for an array of length \<open>n\<close>.\<close>

definition mtt_thres :: "(real \<Rightarrow> int \<Rightarrow> real) \<Rightarrow> real \<Rightarrow> nat \<Rightarrow> npfloat" where
  "mtt_thres tq a n =
     (case t_ppf tq a (int n - 2) of
        None \<Rightarrow> NaN
      | Some t \<Rightarrow> np_div (t * (real n - 1)) (sqrt (real n) * sqrt (real n - 2 + t\<^sup>2)))"

definition mtt_delta :: "real list \<Rightarrow> npfloat" where
  "mtt_delta arr = np_div \<bar>last arr - np_mean arr\<bar> (np_std arr)"

text \<open>
  The \<open>while True\<close> loop on the sorted working array and the running limit. It returns
  the limit and the array it stops with; \<open>arr[-1]\<close> raises on an empty array.
\<close>

function mtt_loop :: "(real \<Rightarrow> int \<Rightarrow> real) \<Rightarrow> real \<Rightarrow> real list \<Rightarrow> real \<Rightarrow> error + real \<times> real list" where
  "mtt_loop tq a arr limit =
     (if arr = [] then Inl IndexError
      else if np_gt (mtt_delta arr) (mtt_thres tq a (length arr))
           then mtt_loop tq a (np_delete arr (length arr - 1)) (last arr)
           else Inr (limit, arr))"
  by pat_completeness auto
termination
  by (relation "measure (\<lambda>(tq, a, arr, limit). length arr)") (auto simp: np_delete_def)

definition MTT_eval :: "(real \<Rightarrow> int \<Rightarrow> real) \<Rightarrow> MTT \<Rightarrow> real list \<Rightarrow> (error + nat list) \<times> MTT" where
  "MTT_eval tq self decision =
     (case check_array decision of
        Inl e \<Rightarrow> (Inl e, self)
      | Inr checked \<Rightarrow>
          (case normalize_scores checked of
             Inl e \<Rightarrow> (Inl e, self)
           | Inr decision' \<Rightarrow>
               (case mtt_loop tq (mtt_alpha self) (sort decision') 1.1 of
                  Inl e \<Rightarrow> (Inl e, self)
                | Inr (limit, arr) \<Rightarrow>
                    (Inr (cut_scores decision' limit), self\<lparr>mtt_thresh := Threshold limit\<rparr>))))"

section \<open>CHAU: Chauvenet's criterion (chau.py)\<close>

datatype chau_stat = Mean | Median | Gmean

record CHAU =
  chau_method :: chau_stat
  chau_thresh :: thresh

definition CHAU_init :: "chau_stat \<Rightarrow> CHAU" where
  "CHAU_init m = \<lparr>chau_method = m, chau_thresh = Unset\<rparr>"

text \<open>\<open>scipy.stats.gmean\<close> is \<open>exp(mean(log a))\<close>; a zero entry gives \<open>log 0 = -inf\<close> and
  the result 0.\<close>

definition stats_gmean :: "real list \<Rightarrow> real" where
  "stats_gmean xs = (if 0 \<in> set xs then 0 else exp (sum_list (map ln xs) / real (length xs)))"

fun chau_center :: "chau_stat \<Rightarrow> real list \<Rightarrow> real" where
  "chau_center Mean xs = np_mean xs"
| "chau_center Median xs = np_median xs"
| "chau_center Gmean xs = stats_gmean xs"

text \<open>
  \<open>criterion = 1/abs(stats.norm.ppf(Pz))\<close> with \<open>Pz = 1/(4*len(decision))\<close>. The normal
  quantile function \<open>norm_ppf\<close> and \<open>erfc\<close> are scipy's and stay parameters. The
  quantile of a probability below one half is negative, so the division is the real one;
  results about the criterion assume \<open>norm_ppf Pz \<noteq> 0\<close>.
\<close>

definition chau_criterion :: "(real \<Rightarrow> real) \<Rightarrow> nat \<Rightarrow> real" where
  "chau_criterion norm_ppf n = 1 / \<bar>norm_ppf (1 / (4 * real n))\<bar>"

text \<open>\<open>prob = erfc(np.abs(decision - self.method(decision)) / decision.std())\<close>; the
  standard deviation of a normalized array is positive.\<close>

definition chau_prob :: "(real \<Rightarrow> real) \<Rightarrow> chau_stat \<Rightarrow> real list \<Rightarrow> real list" where
  "chau_prob erfc m decision =
     map (\<lambda>v. erfc (\<bar>v - chau_center m decision\<bar> / np_std decision)) decision"

definition CHAU_eval :: "(real \<Rightarrow> real) \<Rightarrow> (real \<Rightarrow> real) \<Rightarrow> CHAU \<Rightarrow> real list \<Rightarrow> (error + nat list) \<times> CHAU" where
  "CHAU_eval norm_ppf erfc self decision =
     (case check_array decision of
        Inl e \<Rightarrow> (Inl e, self)
      | Inr checked \<Rightarrow>
          (case normalize_scores checked of
             Inl e \<Rightarrow> (Inl e, self)
           | Inr decision' \<Rightarrow>
               (let criterion = chau_criterion norm_ppf (length decision');
                    prob = chau_prob erfc (chau_method self) decision'
                in (Inr (cut_scores prob criterion),
                    self\<lparr>chau_thresh :=
                      Threshold (criterion * (1 - np_min prob) / np_max prob)\<rparr>))))"

section \<open>MAD: median absolute deviation (mad.py)\<close>

record MAD =
  mad_thresh :: thresh

definition MAD_init :: MAD where
  "MAD_init = \<lparr>mad_thresh = Unset\<rparr>"

text \<open>\<open>scipy.stats.median_abs_deviation(x, scale=s)\<close>: the median of the absolute
  deviations from the median, over \<open>s\<close>.\<close>

definition median_abs_deviation :: "real list \<Rightarrow> real \<Rightarrow> real" where
  "median_abs_deviation x s = np_median (map (\<lambda>v. \<bar>v - np_median x\<bar>) x) / s"

definition MAD_eval :: "MAD \<Rightarrow> real list \<Rightarrow> (error + nat list) \<times> MAD" where
  "MAD_eval self decision =
     (case check_array decision of
        Inl e \<Rightarrow> (Inl e, self)
      | Inr checked \<Rightarrow>
          (case normalize_scores checked of
             Inl e \<Rightarrow> (Inl e, self)
           | Inr decision' \<Rightarrow>
               (let limit = np_mean decision' + median_abs_deviation decision' (np_std decision')
                in (Inr (cut_scores decision' limit), self\<lparr>mad_thresh := Threshold limit\<rparr>))))"

section \<open>CLUST: clustering dispatch (clust.py)\<close>

datatype clust_method =
    AGG | BIRCH | BANG | BGM | BSAS | DBSCAN | EMA | KMEANS | MBSAS | MSHIFT
  | OPTICS | SOMSC | SPEC | XMEANS

record CLUST =
  clust_method :: clust_method
  clust_random_state :: int
  clust_thresh :: thresh

definition CLUST_init :: "clust_method \<Rightarrow> int \<Rightarrow> CLUST" where
  "CLUST_init m rs = \<lparr>clust_method = m, clust_random_state = rs, clust_thresh = Unset\<rparr>"

text \<open>\<open>np.ceil(len(decision)/2)\<close>.\<close>

definition half_up :: "nat \<Rightarrow> int" where
  "half_up n = (int n + 1) div 2"

text \<open>The orientation step shared by the three evaluation paths:
  \<open>if sum(labels) > np.ceil(len(decision)/2): labels = 1-labels\<close>.\<close>

definition flip_if_majority :: "int list \<Rightarrow> nat \<Rightarrow> int list" where
  "flip_if_majority labels n =
     (if half_up n < sum_list labels then map (\<lambda>l. 1 - l) labels else labels)"

text \<open>
  The index array \<open>pred\<close> of \<open>_pyclust_eval\<close>, from the clusters \<open>cl.get_clusters()\<close>
  returns. \<open>np.array(clusters, dtype=object)\<close> is two-dimensional when all clusters have
  one length, and then \<open>pred\<close> keeps every index of every cluster (\<open>np.squeeze\<close> only
  drops axes of length one; a single cluster of at most one index leaves nothing for
  \<open>pred[0]\<close> to read). Clusters of different lengths give an array of lists, and \<open>pred\<close>
  becomes the first cluster.
\<close>

definition pyclust_pred :: "nat list list \<Rightarrow> error + nat list" where
  "pyclust_pred clusters =
     (case clusters of
        [] \<Rightarrow> Inl IndexError
      | c # cs \<Rightarrow>
          if list_all (\<lambda>d. length d = length c) cs
          then (if cs = [] \<and> length c \<le> 1 then Inl IndexError else Inr (concat clusters))
          else Inr c)"

text \<open>\<open>_pyclust_eval\<close> on the clusters of the backend and \<open>n = len(decision)\<close>; an index
  beyond the array raises.\<close>

definition pyclust_eval :: "nat list list \<Rightarrow> nat \<Rightarrow> error + int list" where
  "pyclust_eval clusters n =
     (case pyclust_pred clusters of
        Inl e \<Rightarrow> Inl e
      | Inr pred \<Rightarrow>
          if list_ex (\<lambda>i. n \<le> i) pred then Inl IndexError
          else Inr (flip_if_majority (map (\<lambda>i. if i \<in> set pred then 0 else 1) [0..<n]) n))"

text \<open>\<open>_sklearn_eval\<close> on the fitted \<open>cl.labels_\<close>; \<open>_BGM_clust\<close> does the same with
  \<open>cl.predict(decision)\<close>.\<close>

definition sklearn_eval :: "int list \<Rightarrow> nat \<Rightarrow> int list" where
  "sklearn_eval labels n = flip_if_majority labels n"

definition BGM_clust :: "int list \<Rightarrow> nat \<Rightarrow> int list" where
  "BGM_clust labels n = flip_if_majority labels n"

text \<open>\<open>_MSHIFT_clust\<close>: the most frequent cluster label (\<open>np.bincount(lbls).argmax()\<close>, the
  smallest one on ties) becomes 0 and every other label 1.\<close>

definition bincount_argmax :: "nat list \<Rightarrow> nat" where
  "bincount_argmax lbls =
     np_argmax (map (\<lambda>v. real (count_list lbls v)) [0..<Suc (fold max lbls 0)])"

definition MSHIFT_clust :: "nat list \<Rightarrow> int list" where
  "MSHIFT_clust lbls = map (\<lambda>l. if l = bincount_argmax lbls then 0 else 1) lbls"

text \<open>
  \<open>CLUST.eval\<close>. The clustering libraries are parameters: \<open>clusters_of m d\<close> is what
  pyclustering's \<open>get_clusters()\<close> returns for method \<open>m\<close> on the column \<open>d\<close>, and
  \<open>labels_of m d\<close> the label array of the sklearn estimator.
\<close>

fun clust_dispatch :: "(clust_method \<Rightarrow> real list \<Rightarrow> nat list list) \<Rightarrow>
    (clust_method \<Rightarrow> real list \<Rightarrow> int list) \<Rightarrow> clust_method \<Rightarrow> real list \<Rightarrow> error + int list" where
  "clust_dispatch clusters_of labels_of BIRCH d = Inr (sklearn_eval (labels_of BIRCH d) (length d))"
| "clust_dispatch clusters_of labels_of KMEANS d = Inr (sklearn_eval (labels_of KMEANS d) (length d))"
| "clust_dispatch clusters_of labels_of SPEC d = Inr (sklearn_eval (labels_of SPEC d) (length d))"
| "clust_dispatch clusters_of labels_of BGM d = Inr (BGM_clust (labels_of BGM d) (length d))"
| "clust_dispatch clusters_of labels_of MSHIFT d = Inr (MSHIFT_clust (map nat (labels_of MSHIFT d)))"
| "clust_dispatch clusters_of labels_of m d = pyclust_eval (clusters_of m d) (length d)"

definition CLUST_eval :: "(clust_method \<Rightarrow> real list \<Rightarrow> nat list list) \<Rightarrow>
    (clust_method \<Rightarrow> real list \<Rightarrow> int list) \<Rightarrow> CLUST \<Rightarrow> real list \<Rightarrow> (error + int list) \<times> CLUST" where
  "CLUST_eval clusters_of labels_of self decision =
     (case check_array decision of
        Inl e \<Rightarrow> (Inl e, self)
      | Inr checked \<Rightarrow>
          (case normalize_scores checked of
             Inl e \<Rightarrow> (Inl e, self)
           | Inr decision' \<Rightarrow>
               (case clust_dispatch clusters_of labels_of (clust_method self) decision' of
                  Inl e \<Rightarrow> (Inl e, self)
                | Inr labels \<Rightarrow> (Inr labels, self\<lparr>clust_thresh := PyNone\<rparr>))))"

section \<open>EB: elliptical boundary (eb.py)\<close>

record EB =
  eb_thresh :: thresh

definition EB_init :: EB where
  "EB_init = \<lparr>eb_thresh = Unset\<rparr>"

text \<open>\<open>np.linspace(lo, hi, m)\<close>.\<close>

definition np_linspace :: "real \<Rightarrow> real \<Rightarrow> nat \<Rightarrow> real list" where
  "np_linspace lo hi m = map (\<lambda>i. lo + real i * ((hi - lo) / real (m - 1))) [0..<m]"

text \<open>\<open>np.round\<close> rounds a half to the even neighbour.\<close>

definition np_round :: "real \<Rightarrow> real" where
  "np_round x =
     (let f = \<lfloor>x\<rfloor>; d = x - of_int f
      in of_int (if d < 1 / 2 then f else if 1 / 2 < d then f + 1
                 else if even f then f else f + 1))"

text \<open>The cut point \<open>a*(1-e)\<close> with \<open>a = 1/(1+e)\<close>, and the number of inliers it leaves:
  \<open>len(decision) - np.sum(cut(decision, a*(1-e)))\<close>.\<close>

definition eb_limit :: "real \<Rightarrow> real" where
  "eb_limit e = 1 / (1 + e) * (1 - e)"

definition eb_count :: "real list \<Rightarrow> real \<Rightarrow> real" where
  "eb_count decision e =
     real (length decision) - real (sum_list (cut_scores decision (eb_limit e)))"

text \<open>The distance \<open>abs(med - count)\<close> the second loop compares, for the eccentricity
  \<open>e\<close>.\<close>

definition eb_dist :: "real \<Rightarrow> real list \<Rightarrow> real \<Rightarrow> real" where
  "eb_dist med decision e = \<bar>med - eb_count decision e\<bar>"

text \<open>
  The second loop over the eccentricities \<open>ec\<close>. The state is \<open>close\<close> and \<open>limit\<close>;
  \<open>limit\<close> is not bound until a candidate is accepted.
\<close>

fun eb_scan :: "real \<Rightarrow> real list \<Rightarrow> real list \<Rightarrow> real \<times> real option \<Rightarrow> real \<times> real option" where
  "eb_scan med decision [] st = st"
| "eb_scan med decision (e # es) (close, limit) =
     (if \<bar>med - eb_count decision e\<bar> < \<bar>med - close\<bar>
      then eb_scan med decision es (eb_count decision e, Some (eb_limit e))
      else eb_scan med decision es (close, limit))"

text \<open>
  \<open>EB.eval\<close>. \<open>rnd i\<close> is the \<open>i\<close>-th of the 5000 draws of
  \<open>np.random.uniform(0, 1, 5000)\<close> after \<open>np.random.seed(1234)\<close>.
\<close>

definition eb_med :: "(nat \<Rightarrow> real) \<Rightarrow> real list \<Rightarrow> real" where
  "eb_med rnd decision = np_round (np_median (map (\<lambda>i. eb_count decision (rnd i)) [0..<5000]))"

definition EB_eval :: "(nat \<Rightarrow> real) \<Rightarrow> EB \<Rightarrow> real list \<Rightarrow> (error + nat list) \<times> EB" where
  "EB_eval rnd self decision =
     (case check_array decision of
        Inl e \<Rightarrow> (Inl e, self)
      | Inr checked \<Rightarrow>
          (case normalize_scores checked of
             Inl e \<Rightarrow> (Inl e, self)
           | Inr decision' \<Rightarrow>
               (case snd (eb_scan (eb_med rnd decision') decision' (np_linspace 0 1 5000) (0, None)) of
                  None \<Rightarrow> (Inl UnboundLocalError, self)
                | Some limit \<Rightarrow>
                    (Inr (cut_scores decision' limit), self\<lparr>eb_thresh := Threshold limit\<rparr>))))"

section \<open>AUCP: area under curve percentage (aucp.py)\<close>

record AUCP =
  aucp_thresh :: thresh


text \<open>\<open>np.trapz(y, x)\<close>.\<close>

fun np_trapz :: "real list \<Rightarrow> real list \<Rightarrow> real" where
  "np_trapz (y0 # y1 # ys) (x0 # x1 # xs) =
     (x1 - x0) * (y0 + y1) / 2 + np_trapz (y1 # ys) (x1 # xs)"
| "np_trapz ys xs = 0"

text \<open>
  \<open>sklearn.metrics.auc(x, y)\<close> for an increasing \<open>x\<close>: the trapezoidal area, and a
  ValueError for arrays of different lengths or fewer than two points.
\<close>

definition auc :: "real list \<Rightarrow> real list \<Rightarrow> error + real" where
  "auc x y =
     (if length x \<noteq> length y \<or> length x < 2 then Inl ValueError else Inr (np_trapz y x))"

text \<open>
  Modelled from the spec: \<open>gen_kde\<close> of \<open>thresh_utility.py\<close>, which is not among the
  sources. Section 4.2: \<open>gen_kde(x, lo, hi, n_points)\<close> returns the density at \<open>n_points\<close>
  evenly spaced points of \<open>[lo, hi]\<close> and that grid. The spec leaves the kernel and the
  bandwidth open, so the density values are a parameter \<open>kde\<close>.
\<close>

definition gen_kde :: "(real list \<Rightarrow> real list \<Rightarrow> real list) \<Rightarrow> real list \<Rightarrow> real \<Rightarrow> real \<Rightarrow> nat
    \<Rightarrow> real list \<times> real list" where
  "gen_kde kde x lo hi n_points = (kde x (np_linspace lo hi n_points), np_linspace lo hi n_points)"


text \<open>
  Modelled from the spec: a second admissible estimator, the Gaussian-kernel density
  estimate \<open>f t = 1/(n*h*sqrt(2*pi)) * sum_i exp (- ((t - x_i)/h)^2 / 2)\<close> of bandwidth
  \<open>h\<close>.
\<close>

definition gaussian_kde :: "real \<Rightarrow> real list \<Rightarrow> real list \<Rightarrow> real list" where
  "gaussian_kde h x grid =
     map (\<lambda>t. sum_list (map (\<lambda>xi. exp (- (((t - xi) / h)\<^sup>2) / 2)) x)
              / (real (length x) * h * sqrt (2 * pi))) grid"

text \<open>The loop \<open>for i in range(len(dat_range))\<close> over the remaining indices, with
  \<open>bound = perc*tot_area\<close>; it returns the default 1 when it runs out of indices.\<close>

fun aucp_loop :: "real list \<Rightarrow> real list \<Rightarrow> real \<Rightarrow> nat list \<Rightarrow> error + real" where
  "aucp_loop dat_range val bound [] = Inr 1"
| "aucp_loop dat_range val bound (i # is) =
     (case auc (drop i dat_range) (drop i val) of
        Inl e \<Rightarrow> Inl e
      | Inr splt_area \<Rightarrow>
          if splt_area < bound then Inr (dat_range ! i)
          else aucp_loop dat_range val bound is)"

definition aucp_perc :: "real list \<Rightarrow> real" where
  "aucp_perc decision = np_mean decision + \<bar>np_mean decision - np_median decision\<bar>"

definition AUCP_eval :: "(real list \<Rightarrow> real list \<Rightarrow> real list) \<Rightarrow> AUCP \<Rightarrow> real list \<Rightarrow> (error + nat list) \<times> AUCP" where
  "AUCP_eval kde self decision =
     (case check_array decision of
        Inl e \<Rightarrow> (Inl e, self)
      | Inr checked \<Rightarrow>
          (case normalize_scores checked of
             Inl e \<Rightarrow> (Inl e, self)
           | Inr decision' \<Rightarrow>
               (case gen_kde kde decision' 0 1 (length decision' * 2) of
                  (val0, dat_range) \<Rightarrow>
                    (case normalize_scores val0 of
                       Inl e \<Rightarrow> (Inl e, self)
                     | Inr val \<Rightarrow>
                         (case auc dat_range val of
                            Inl e \<Rightarrow> (Inl e, self)
                          | Inr tot_area \<Rightarrow>
                              (case aucp_loop dat_range val (aucp_perc decision' * tot_area)
                                      [0..<length dat_range] of
                                 Inl e \<Rightarrow> (Inl e, self)
                               | Inr limit \<Rightarrow>
                                   (Inr (cut_scores decision' limit),
                                    self\<lparr>aucp_thresh := Threshold limit\<rparr>)))))))"

section \<open>FILTER, FWFM, MOLL and META (filter.py, fwfm.py, moll.py, meta.py)\<close>

text \<open>
  These four evaluate the normalized scores with scipy's signal processing, peak
  analysis, numerical quadrature and a pickled classifier. Those computations are
  parameters of the models; what \<open>eval\<close> itself does around them is modelled as written.
\<close>

datatype filter_method =
  Gaussian | Savgol | Hilbert | Wiener | Medfilt | Decimate | Detrend | Resample

datatype sigma_setting = Auto | Sigma real

record FILTER =
  filter_method :: filter_method
  filter_sigma :: sigma_setting
  filter_thresh :: thresh

text \<open>\<open>fltr m s d sig\<close> is \<open>self.method_funcs[str(self.method)](decision, sig)\<close>;
  \<open>np.max\<close> of an empty array raises.\<close>

definition FILTER_eval :: "(filter_method \<Rightarrow> sigma_setting \<Rightarrow> real list \<Rightarrow> real \<Rightarrow> real list) \<Rightarrow>
    FILTER \<Rightarrow> real list \<Rightarrow> (error + nat list) \<times> FILTER" where
  "FILTER_eval fltr self decision =
     (case check_array decision of
        Inl e \<Rightarrow> (Inl e, self)
      | Inr checked \<Rightarrow>
          (case normalize_scores checked of
             Inl e \<Rightarrow> (Inl e, self)
           | Inr decision' \<Rightarrow>
               (let sig = (case filter_sigma self of
                             Auto \<Rightarrow> real (length decision') * np_std decision'
                           | Sigma s \<Rightarrow> s);
                    filtered = fltr (filter_method self) (filter_sigma self) decision' sig
                in if filtered = [] then (Inl ValueError, self)
                   else (Inr (cut_scores decision' (np_max filtered)),
                         self\<lparr>filter_thresh := Threshold (np_max filtered)\<rparr>))))"

record FWFM =
  fwfm_random_state :: int
  fwfm_dscores :: "real list option"
  fwfm_thresh :: thresh

text \<open>
  Modelled from the spec: \<open>check_scores\<close> of \<open>thresh_utility.py\<close>, which is not among the
  sources. Section 4.4: with a one-dimensional input it is a pass-through after
  validation.
\<close>

definition check_scores :: "real list \<Rightarrow> int \<Rightarrow> error + real list" where
  "check_scores decision random_state = check_array decision"

text \<open>\<open>base_widths val\<close> is \<open>peak_widths(val, find_peaks(val, prominence=0.75)[0],
  rel_height=0.99)[0]\<close>. The attribute \<open>dscores_\<close> is assigned right after the
  normalization.\<close>

definition FWFM_eval :: "(real list \<Rightarrow> real list \<Rightarrow> real list) \<Rightarrow> (real list \<Rightarrow> real list) \<Rightarrow>
    FWFM \<Rightarrow> real list \<Rightarrow> (error + nat list) \<times> FWFM" where
  "FWFM_eval kde base_widths self decision =
     (case check_scores decision (fwfm_random_state self) of
        Inl e \<Rightarrow> (Inl e, self)
      | Inr checked \<Rightarrow>
          (case normalize_scores checked of
             Inl e \<Rightarrow> (Inl e, self)
           | Inr decision' \<Rightarrow>
               (let self1 = self\<lparr>fwfm_dscores := Some decision'\<rparr>
                in case normalize_scores (fst (gen_kde kde decision' (- 1) 1 (length decision' * 3))) of
                     Inl e \<Rightarrow> (Inl e, self1)
                   | Inr val \<Rightarrow>
                       (let base_width = base_widths val;
                            limit = (if 0 < length base_width
                                     then hd base_width / real (length val) else 1.1)
                        in (Inr (cut_scores decision' limit),
                            self1\<lparr>fwfm_thresh := Threshold limit\<rparr>)))))"

record MOLL =
  moll_thresh :: thresh

text \<open>\<open>mollifier t p\<close> is \<open>self._mollifier(dat_range, np.sort(decision))\<close>, a quadrature
  and a convolution in floating point.\<close>

definition MOLL_eval :: "(real list \<Rightarrow> real list \<Rightarrow> real list) \<Rightarrow> MOLL \<Rightarrow> real list
    \<Rightarrow> (error + nat list) \<times> MOLL" where
  "MOLL_eval mollifier self decision =
     (case check_array decision of
        Inl e \<Rightarrow> (Inl e, self)
      | Inr checked \<Rightarrow>
          (let dat_range = np_linspace 0 1 (length checked)
           in case normalize_scores checked of
                Inl e \<Rightarrow> (Inl e, self)
              | Inr decision' \<Rightarrow>
                  (let smooth = mollifier dat_range (sort decision')
                   in if smooth = [] then (Inl ValueError, self)
                      else (Inr (cut_scores decision' (1 - np_max smooth)),
                            self\<lparr>moll_thresh := Threshold (1 - np_max smooth)\<rparr>))))"

datatype meta_model = LIN | GNB

record META =
  meta_method :: meta_model
  meta_thresh :: thresh

text \<open>
  \<open>predict m d i\<close> is \<open>model.predict(df)\<close> of the loaded classifier for group \<open>i\<close>, and
  \<open>mode_of\<close> is \<open>np.squeeze(stats.mode(contam, axis=0)[0])\<close>. A vote is kept when its
  outlier ratio lies strictly between 0 and one half.
\<close>

definition META_eval :: "(meta_model \<Rightarrow> real list \<Rightarrow> nat \<Rightarrow> nat list) \<Rightarrow> (nat list list \<Rightarrow> nat list) \<Rightarrow>
    META \<Rightarrow> real list \<Rightarrow> (error + nat list) \<times> META" where
  "META_eval predict mode_of self decision =
     (case check_array decision of
        Inl e \<Rightarrow> (Inl e, self)
      | Inr checked \<Rightarrow>
          (case normalize_scores checked of
             Inl e \<Rightarrow> (Inl e, self)
           | Inr decision' \<Rightarrow>
               (let contam = filter (\<lambda>labels.
                                real (sum_list labels) / real (length decision') < 0.5 \<and>
                                0 < real (sum_list labels) / real (length decision'))
                              (map (predict (meta_method self) decision') [0..<380])
                in (Inr (mode_of contam), self\<lparr>meta_thresh := PyNone\<rparr>))))"

section \<open>Facts about the primitives\<close>

lemma normalize_scores_0111: "normalize_scores [0, 1, 1, 1] = Inr [0, 1, 1, 1]"
  by (simp add: normalize_scores_def np_max_def np_min_def)

lemma normalize_scores_length: "normalize_scores x = Inr y \<Longrightarrow> length y = length x"
  by (auto simp: normalize_scores_def split: if_splits)

lemma normalize_scores_nonempty: "normalize_scores x = Inr y \<Longrightarrow> x \<noteq> []"
  by (auto simp: normalize_scores_def split: if_splits)

lemma normalize_scores_012: "normalize_scores [0, 1, 2] = Inr [0, 1 / 2, 1]"
  by (simp add: normalize_scores_def np_max_def np_min_def)

lemma np_gt_NaN_right: "\<not> np_gt x NaN"
  by (cases x) simp_all

section \<open>GESD: the configured cap\<close>

text \<open>
  C1. Every procedure is meant to keep its configuration across calls and to record only
  its last threshold. \<open>GESD.eval\<close> does not: constructed with the default
  \<open>max_outliers='native'\<close> and called on four scores, it leaves the instance with
  \<open>max_outliers = 2\<close>, so a later call on ten scores runs two iterations where the
  default promises five.
\<close>

theorem GESD_eval_overwrites_max_outliers:
  "gesd_max_outliers (snd (GESD_eval tq (GESD_init Native a) [0, 1, 2, 3])) = Cap 2
   \<and> cap_count (Cap 2) 10 = 2 \<and> cap_count Native 10 = 5"
  by (simp add: GESD_eval_def GESD_init_def check_array_def normalize_scores_def
      np_max_def np_min_def Let_def split: sum.splits)

text \<open>The first Grubbs test on \<open>[0, 1, 1, 1]\<close>: the statistic is \<open>3 / sqrt 3\<close>, attained at
  the smallest score, and the critical value stays below \<open>3 / 2\<close> whatever the quantile.\<close>

lemma grubbs_stat_0111: "grubbs_stat [0, 1, 1, 1] = (Fin (3 / sqrt 3), 0)"
  by (simp add: grubbs_stat_def np_mean_def np_argmax_def np_max_def np_std_def np_div_def
      Let_def power2_eq_square real_sqrt_divide)

lemma grubbs_stat_111: "grubbs_stat [1, 1, 1] = (NaN, 0)"
  by (simp add: grubbs_stat_def np_mean_def np_argmax_def np_max_def np_std_def np_div_def Let_def)

lemma calc_crit_four:
  "\<exists>c. calc_crit tq (Suc (Suc (Suc (Suc 0)))) (1 / 20) = Inr (Fin c) \<and> c < 3 / 2"
proof -
  define t where
    "t = tq (1 - (1 / 20) / (2 * real (Suc (Suc (Suc (Suc 0)))))) (int (Suc (Suc (Suc (Suc 0)))) - 2)"
  have pos: "0 < sqrt (2 + t\<^sup>2)"
    by (simp add: add_pos_nonneg)
  have "\<bar>t\<bar>\<^sup>2 < 2 + t\<^sup>2"
    by simp
  then have "\<bar>t\<bar> < sqrt (2 + t\<^sup>2)"
    by (rule real_less_rsqrt)
  then have "3 * \<bar>t\<bar> / (2 * sqrt (2 + t\<^sup>2)) < 3 / 2"
    using pos by (simp add: field_simps)
  moreover have "calc_crit tq (Suc (Suc (Suc (Suc 0)))) (1 / 20) =
      Inr (Fin (3 * \<bar>t\<bar> / (2 * sqrt (2 + t\<^sup>2))))"
    using pos by (simp add: calc_crit_def t_ppf_def np_div_def t_def Let_def)
  ultimately show ?thesis
    by blast
qed

lemma calc_crit_three: "\<exists>g. calc_crit tq (Suc (Suc (Suc 0))) a = Inr g"
  by (simp add: calc_crit_def Let_def split: option.splits)

lemma three_halves_less: "3 / 2 < 3 / sqrt 3"
proof -
  have "sqrt 3 < 2"
    by (rule real_less_lsqrt) simp_all
  moreover have "0 < sqrt 3"
    by simp
  ultimately show ?thesis
    by (simp add: field_simps)
qed

lemma gesd_loop_0111: "gesd_loop tq (1 / 20) (Suc (Suc 0)) [0, 1, 1, 1] (11 / 10) = Inr 0"
proof -
  obtain c where c: "calc_crit tq (Suc (Suc (Suc (Suc 0)))) (1 / 20) = Inr (Fin c)" "c < 3 / 2"
    using calc_crit_four by blast
  obtain g where g: "calc_crit tq (Suc (Suc (Suc 0))) (1 / 20) = Inr g"
    using calc_crit_three by blast
  have gt: "c < 3 / sqrt 3"
    using c(2) three_halves_less by (rule less_trans)
  show ?thesis
    by (simp add: c g gt grubbs_stat_0111 grubbs_stat_111 np_delete_def)
qed

text \<open>
  C5. The rejection tests are meant never to flag more scores than the configured cap.
  \<open>GESD.eval\<close> with the default cap (half of four scores, that is two) on
  \<open>[0, 1, 1, 1]\<close> confirms the low score 0 as the extreme deviate, takes it as the limit
  and flags the three scores above it, for every Student quantile function.
\<close>

theorem GESD_eval_exceeds_cap:
  "GESD_eval tq (GESD_init Native (5 / 100)) [0, 1, 1, 1] =
     (Inr [0, 1, 1, 1],
      \<lparr>gesd_max_outliers = Cap 2, gesd_alpha = 5 / 100, gesd_thresh = Threshold 0\<rparr>)
   \<and> cap_count Native (length [0, 1, 1, 1 :: real]) < count_list [0, 1, 1, 1 :: nat] 1"
proof -
  have two: "(2::nat) = Suc (Suc 0)"
    by simp
  have "GESD_eval tq (GESD_init Native (5 / 100)) [0, 1, 1, 1] =
     (Inr [0, 1, 1, 1],
      \<lparr>gesd_max_outliers = Cap 2, gesd_alpha = 5 / 100, gesd_thresh = Threshold 0\<rparr>)"
    by (simp add: GESD_eval_def GESD_init_def check_array_def normalize_scores_0111 two
        gesd_loop_0111 cut_scores_def del: gesd_loop.simps)
  then show ?thesis
    by simp
qed

section \<open>MTT: the loop ends\<close>

lemma mtt_thres_short: "n \<le> 2 \<Longrightarrow> mtt_thres tq a n = NaN"
  by (simp add: mtt_thres_def t_ppf_def)

lemma mtt_loop_short:
  "arr \<noteq> [] \<Longrightarrow> length arr \<le> 2 \<Longrightarrow> mtt_loop tq a arr limit = Inr (limit, arr)"
  by (simp add: mtt_thres_short np_gt_NaN_right)

lemma mtt_loop_step:
  "arr \<noteq> [] \<Longrightarrow> np_gt (mtt_delta arr) (mtt_thres tq a (length arr)) \<Longrightarrow>
     mtt_loop tq a arr limit = mtt_loop tq a (butlast arr) (last arr)"
  by (simp add: np_delete_def butlast_conv_take)

lemma mtt_loop_returns:
  "2 \<le> length arr \<Longrightarrow>
     \<exists>limit' k. mtt_loop tq a arr limit = Inr (limit', take k arr) \<and> 2 \<le> k \<and> k \<le> length arr"
proof (induction tq a arr limit rule: mtt_loop.induct)
  case (1 tq a arr limit)
  show ?case
  proof (cases "np_gt (mtt_delta arr) (mtt_thres tq a (length arr))")
    case False
    with "1.prems" have "mtt_loop tq a arr limit = Inr (limit, take (length arr) arr)"
      by auto
    with "1.prems" show ?thesis
      by blast
  next
    case True
    then have long: "3 \<le> length arr"
      using mtt_thres_short [of "length arr" tq a] np_gt_NaN_right [of "mtt_delta arr"]
      by (cases "length arr \<le> 2") auto
    then have ne: "arr \<noteq> []"
      by auto
    have len: "length (np_delete arr (length arr - 1)) = length arr - 1"
      using ne by (simp add: np_delete_def)
    have "2 \<le> length (np_delete arr (length arr - 1))"
      using long len by simp
    from "1.IH" [OF ne True this]
    obtain limit' k where
      r: "mtt_loop tq a (np_delete arr (length arr - 1)) (last arr)
            = Inr (limit', take k (np_delete arr (length arr - 1)))"
         "2 \<le> k" "k \<le> length (np_delete arr (length arr - 1))"
      by blast
    have "take k (np_delete arr (length arr - 1)) = take k arr"
      using r(3) len by (simp add: np_delete_def min_def)
    with r True ne len show ?thesis
      by (intro exI [of _ limit'] exI [of _ k]) simp
  qed
qed

text \<open>
  C10. For a valid input of length at least 2 the loop of \<open>MTT.eval\<close> ends: it returns
  a limit and a prefix of the sorted array that still has at least two elements, so at
  most \<open>n - 1\<close> elements were removed and \<open>eval\<close> returns labels. On an array of length
  2 or less the rejection comparison never holds, because the quantile at \<open>df \<le> 0\<close> is
  nan. (An iteration removes the last element or stops: \<open>mtt_loop_step\<close>.)
\<close>

theorem MTT_loop_terminates:
  assumes "2 \<le> length decision" and "normalize_scores decision = Inr d"
  shows "\<exists>limit k.
           mtt_loop tq (mtt_alpha self) (sort d) 1.1 = Inr (limit, take k (sort d))
         \<and> 2 \<le> k \<and> k \<le> length decision
         \<and> length decision - k \<le> length decision - 1
         \<and> MTT_eval tq self decision =
             (Inr (cut_scores d limit), self\<lparr>mtt_thresh := Threshold limit\<rparr>)
         \<and> (\<forall>arr. length arr \<le> 2 \<longrightarrow>
               \<not> np_gt (mtt_delta arr) (mtt_thres tq (mtt_alpha self) (length arr)))"
proof -
  have len: "length (sort d) = length decision"
    using normalize_scores_length [OF assms(2)] by simp
  then have "2 \<le> length (sort d)"
    using assms(1) by simp
  from mtt_loop_returns [OF this, of tq "mtt_alpha self" "1.1"]
  obtain limit k where
    r: "mtt_loop tq (mtt_alpha self) (sort d) 1.1 = Inr (limit, take k (sort d))"
       "2 \<le> k" "k \<le> length (sort d)"
    by blast
  have ne: "decision \<noteq> []"
    using assms(1) by auto
  have "MTT_eval tq self decision =
      (Inr (cut_scores d limit), self\<lparr>mtt_thresh := Threshold limit\<rparr>)"
    using r(1) ne assms(2) by (simp add: MTT_eval_def check_array_def del: mtt_loop.simps)
  moreover have "\<forall>arr. length arr \<le> 2 \<longrightarrow>
      \<not> np_gt (mtt_delta arr) (mtt_thres tq (mtt_alpha self) (length arr))"
    by (simp add: mtt_thres_short np_gt_NaN_right)
  ultimately show ?thesis
    using r len by (intro exI [of _ limit] exI [of _ k]) simp
qed

theorem MTT_loop_terminates_witness:
  "2 \<le> length [0, 1, 2 :: real] \<and> normalize_scores [0, 1, 2] = Inr [0, 1 / 2, 1]
   \<and> (\<exists>limit k.
        mtt_loop (\<lambda>q df. 1) (mtt_alpha (MTT_init 0.99)) (sort [0, 1 / 2, 1]) 1.1
          = Inr (limit, take k (sort [0, 1 / 2, 1]))
        \<and> 2 \<le> k \<and> k \<le> length [0, 1, 2 :: real])"
proof -
  have a: "2 \<le> length [0, 1, 2 :: real]"
    by simp
  from MTT_loop_terminates [OF a normalize_scores_012, of "\<lambda>q df. 1" "MTT_init 0.99"]
  obtain limit k where
    "mtt_loop (\<lambda>q df. 1) (mtt_alpha (MTT_init 0.99)) (sort [0, 1 / 2, 1]) 1.1
          = Inr (limit, take k (sort [0, 1 / 2, 1]))" "2 \<le> k" "k \<le> length [0, 1, 2 :: real]"
    by blast
  then show ?thesis
    using a normalize_scores_012 by blast
qed

section \<open>CLUST: orientation of the labels\<close>

lemma sum_list_01: "set ls \<subseteq> {0, 1} \<Longrightarrow> sum_list ls = int (count_list ls 1)"
  by (induction ls) auto

lemma flip_01: "set ls \<subseteq> {0, 1} \<Longrightarrow> set (map (\<lambda>l. 1 - l) ls) \<subseteq> {0, 1::int}"
  by auto

lemma sum_list_flip: "sum_list (map (\<lambda>l. 1 - l) ls) = int (length ls) - sum_list ls"
  by (induction ls) auto

lemma half_up_floor: "int n - half_up n = int n div 2"
  by (simp add: half_up_def)

lemma flip_if_majority_01:
  "set ls \<subseteq> {0, 1} \<Longrightarrow> set (flip_if_majority ls n) \<subseteq> {0, 1}"
  by (auto simp: flip_if_majority_def)

lemma flip_if_majority_count:
  assumes "set ls \<subseteq> {0, 1}" and "length ls = n"
  shows "int (count_list (flip_if_majority ls n) 1) \<le> half_up n"
proof (cases "half_up n < sum_list ls")
  case True
  have "set (map (\<lambda>l. 1 - l) ls) \<subseteq> {0, 1}"
    using assms(1) by (rule flip_01)
  then have "int (count_list (map (\<lambda>l. 1 - l) ls) 1) = int n - sum_list ls"
    using sum_list_01 [of "map (\<lambda>l. 1 - l) ls"] sum_list_flip [of ls] assms(2) by simp
  moreover have "int n - sum_list ls < int n div 2"
    using True half_up_floor [of n] by linarith
  moreover have "int n div 2 \<le> half_up n"
    by (simp add: half_up_def) 
  ultimately show ?thesis
    using True by (simp add: flip_if_majority_def)
next
  case False
  then show ?thesis
    using sum_list_01 [OF assms(1)] by (simp add: flip_if_majority_def)
qed

lemma flip_if_majority_flipped:
  assumes "set ls \<subseteq> {0, 1}" and "length ls = n" and "half_up n < sum_list ls"
  shows "flip_if_majority ls n = map (\<lambda>l. 1 - l) ls"
    and "int (count_list (flip_if_majority ls n) 1) = int n - sum_list ls"
    and "int (count_list (flip_if_majority ls n) 1) < int n div 2"
proof -
  show f: "flip_if_majority ls n = map (\<lambda>l. 1 - l) ls"
    using assms(3) by (simp add: flip_if_majority_def)
  have "set (map (\<lambda>l. 1 - l) ls) \<subseteq> {0, 1}"
    using assms(1) by (rule flip_01)
  then show c: "int (count_list (flip_if_majority ls n) 1) = int n - sum_list ls"
    using sum_list_01 [of "map (\<lambda>l. 1 - l) ls"] sum_list_flip [of ls] assms(2) f by simp
  show "int (count_list (flip_if_majority ls n) 1) < int n div 2"
    using c assms(3) half_up_floor [of n] by linarith
qed

lemma pyclust_eval_shape:
  assumes "pyclust_eval clusters n = Inr labels"
  shows "\<exists>ls. set ls \<subseteq> {0, 1} \<and> length ls = n \<and> labels = flip_if_majority ls n"
proof -
  from assms obtain pred where
    "labels = flip_if_majority (map (\<lambda>i. if i \<in> set pred then 0 else 1) [0..<n]) n"
    by (auto simp: pyclust_eval_def split: sum.splits if_splits)
  moreover have "set (map (\<lambda>i. if i \<in> set pred then 0 else (1::int)) [0..<n]) \<subseteq> {0, 1}"
    by auto
  ultimately show ?thesis
    by (intro exI [of _ "map (\<lambda>i. if i \<in> set pred then 0 else 1) [0..<n]"]) simp
qed

text \<open>
  C9. On every path that orients the labels (\<open>_pyclust_eval\<close>, \<open>_sklearn_eval\<close>,
  \<open>_BGM_clust\<close>; the estimators return the labels 0 and 1), at most \<open>ceil(n/2)\<close> of the
  returned labels are 1; and when the count before the flip exceeds \<open>ceil(n/2)\<close>, the
  labels are flipped and the count after it, \<open>n - sum\<close>, is below \<open>floor(n/2)\<close>.
\<close>

theorem CLUST_outliers_at_most_half:
  assumes "set lbls \<subseteq> {0, 1}" and "length lbls = n" and "pyclust_eval clusters n = Inr labels"
  shows "int (count_list (sklearn_eval lbls n) 1) \<le> half_up n
       \<and> int (count_list (BGM_clust lbls n) 1) \<le> half_up n
       \<and> int (count_list labels 1) \<le> half_up n
       \<and> (half_up n < sum_list lbls \<longrightarrow>
            sklearn_eval lbls n = map (\<lambda>l. 1 - l) lbls
          \<and> int (count_list (sklearn_eval lbls n) 1) = int n - sum_list lbls
          \<and> int (count_list (sklearn_eval lbls n) 1) < int n div 2)"
proof -
  obtain ls where ls: "set ls \<subseteq> {0, 1}" "length ls = n" "labels = flip_if_majority ls n"
    using pyclust_eval_shape [OF assms(3)] by blast
  show ?thesis
    using flip_if_majority_count [OF assms(1,2)] flip_if_majority_count [OF ls(1,2)] ls(3)
      flip_if_majority_flipped [OF assms(1,2)]
    by (simp add: sklearn_eval_def BGM_clust_def)
qed

theorem CLUST_outliers_at_most_half_witness:
  "set [1, 1, 1, 0, 1 :: int] \<subseteq> {0, 1} \<and> length [1, 1, 1, 0, 1 :: int] = 5
   \<and> pyclust_eval [[0, 1], [2, 3, 4]] 5 = Inr [0, 0, 1, 1, 1]
   \<and> sklearn_eval [1, 1, 1, 0, 1] 5 = [0, 0, 0, 1, 0]
   \<and> int (count_list (sklearn_eval [1, 1, 1, 0, 1] 5) 1) < 5 div 2
   \<and> int (count_list [0, 0, 1, 1, 1 :: int] 1) \<le> half_up 5"
proof -
  have a: "set [1, 1, 1, 0, 1 :: int] \<subseteq> {0, 1}" by simp
  have b: "length [1, 1, 1, 0, 1 :: int] = 5" by simp
  have c: "pyclust_eval [[0, 1], [2, 3, 4]] 5 = Inr [0, 0, 1, 1, 1]"
    by (simp add: pyclust_eval_def pyclust_pred_def flip_if_majority_def half_up_def upt_rec)
  have d: "half_up 5 < sum_list [1, 1, 1, 0, 1 :: int]" by (simp add: half_up_def)
  show ?thesis
    using CLUST_outliers_at_most_half [OF a b c] d a b c by simp
qed

text \<open>
  C2. The larger group is meant to come out as inliers. With three scores and two of them
  in the cluster labelled 1, the count 2 equals \<open>ceil(3/2)\<close>, the test
  \<open>sum(labels) > np.ceil(len(decision)/2)\<close> fails, nothing is flipped and \<open>CLUST.eval\<close>
  returns the majority as outliers, on each of the three paths.
\<close>

theorem CLUST_eval_keeps_majority_flagged:
  "CLUST_eval clusters_of (\<lambda>m d. [1, 1, 0]) (CLUST_init KMEANS 1234) [0, 1, 10] =
     (Inr [1, 1, 0], \<lparr>clust_method = KMEANS, clust_random_state = 1234, clust_thresh = PyNone\<rparr>)
   \<and> CLUST_eval clusters_of (\<lambda>m d. [1, 1, 0]) (CLUST_init BGM 1234) [0, 1, 10] =
     (Inr [1, 1, 0], \<lparr>clust_method = BGM, clust_random_state = 1234, clust_thresh = PyNone\<rparr>)
   \<and> CLUST_eval (\<lambda>m d. [[2], [0, 1]]) labels_of (CLUST_init AGG 1234) [0, 1, 10] =
     (Inr [1, 1, 0], \<lparr>clust_method = AGG, clust_random_state = 1234, clust_thresh = PyNone\<rparr>)"
  by (simp add: CLUST_eval_def CLUST_init_def check_array_def normalize_scores_def np_max_def
      np_min_def sklearn_eval_def BGM_clust_def pyclust_eval_def pyclust_pred_def
      flip_if_majority_def half_up_def upt_rec)

section \<open>Constant input\<close>

lemma funpow_max_same: "(max c ^^ k) (c::real) = c"
  by (induction k) simp_all

lemma funpow_min_same: "(min c ^^ k) (c::real) = c"
  by (induction k) simp_all

lemma normalize_scores_constant:
  "0 < n \<Longrightarrow> normalize_scores (replicate n c) = Inl DegenerateInputError"
  by (cases n) (simp_all add: normalize_scores_def np_max_def np_min_def
      funpow_max_same funpow_min_same)

lemma check_array_constant: "0 < n \<Longrightarrow> check_array (replicate n c) = Inr (replicate n c)"
  by (simp add: check_array_def)

text \<open>
  C7. On a constant input array, such as \<open>[5, 5, 5, 5, 5]\<close>, every procedure's \<open>eval\<close>
  raises a DegenerateInputError and leaves its instance as it was: the normalization is
  the first step after the input check in each of them, and it rejects a zero range.
\<close>

theorem constant_input_raises_degenerate:
  assumes "0 < n"
  shows "MAD_eval mad (replicate n c) = (Inl DegenerateInputError, mad)
       \<and> CHAU_eval norm_ppf erfc chau (replicate n c) = (Inl DegenerateInputError, chau)
       \<and> GESD_eval tq gesd (replicate n c) = (Inl DegenerateInputError, gesd)
       \<and> MTT_eval tq mtt (replicate n c) = (Inl DegenerateInputError, mtt)
       \<and> EB_eval rnd eb (replicate n c) = (Inl DegenerateInputError, eb)
       \<and> AUCP_eval kde aucp (replicate n c) = (Inl DegenerateInputError, aucp)
       \<and> CLUST_eval clusters_of labels_of clust (replicate n c) = (Inl DegenerateInputError, clust)
       \<and> FILTER_eval fltr filt (replicate n c) = (Inl DegenerateInputError, filt)
       \<and> FWFM_eval kde base_widths fwfm (replicate n c) = (Inl DegenerateInputError, fwfm)
       \<and> MOLL_eval mollifier moll (replicate n c) = (Inl DegenerateInputError, moll)
       \<and> META_eval predict mode_of meta (replicate n c) = (Inl DegenerateInputError, meta)"
  using assms
  by (simp add: MAD_eval_def CHAU_eval_def GESD_eval_def MTT_eval_def EB_eval_def AUCP_eval_def
      CLUST_eval_def FILTER_eval_def FWFM_eval_def MOLL_eval_def META_eval_def check_scores_def
      check_array_constant normalize_scores_constant)

theorem constant_input_raises_degenerate_witness:
  "(0::nat) < 5
   \<and> MAD_eval MAD_init [5, 5, 5, 5, 5] = (Inl DegenerateInputError, MAD_init)
   \<and> CHAU_eval (\<lambda>p. - 2) (\<lambda>x. 1 / (1 + x)) (CHAU_init Mean) [5, 5, 5, 5, 5]
       = (Inl DegenerateInputError, CHAU_init Mean)"
proof -
  have r: "replicate 5 (5::real) = [5, 5, 5, 5, 5]"
    by (simp add: numeral_eq_Suc)
  have p: "(0::nat) < 5"
    by simp
  show ?thesis
    using constant_input_raises_degenerate [OF p, of MAD_init 5 "\<lambda>p. - 2" "\<lambda>x. 1 / (1 + x)" "CHAU_init Mean"]
    by (simp add: r)
qed

lemma np_max_Max:
  assumes "xs \<noteq> []"
  shows "np_max xs = Max (set xs)"
proof (cases xs)
  case Nil
  with assms show ?thesis by simp
next
  case (Cons a as)
  then show ?thesis
    using Max.set_eq_fold [of a as] by (simp add: np_max_def)
qed

lemma np_min_Min:
  assumes "xs \<noteq> []"
  shows "np_min xs = Min (set xs)"
proof (cases xs)
  case Nil
  with assms show ?thesis by simp
next
  case (Cons a as)
  then show ?thesis
    using Min.set_eq_fold [of a as] by (simp add: np_min_def)
qed

lemma normalize_scores_has_0_1:
  assumes "normalize_scores x = Inr d"
  shows "0 \<in> set d" and "1 \<in> set d"
proof -
  from assms have ne: "x \<noteq> []" and neq: "np_max x \<noteq> np_min x"
    and d: "d = map (\<lambda>v. (v - np_min x) / (np_max x - np_min x)) x"
    by (auto simp: normalize_scores_def split: if_splits)
  have "np_min x \<in> set x"
    using ne by (simp add: np_min_Min)
  then have "(np_min x - np_min x) / (np_max x - np_min x) \<in> set d"
    unfolding d by (simp only: set_map) (rule imageI)
  then show "0 \<in> set d"
    by simp
  have "np_max x \<in> set x"
    using ne by (simp add: np_max_Max)
  then have "(np_max x - np_min x) / (np_max x - np_min x) \<in> set d"
    unfolding d by (simp only: set_map) (rule imageI)
  then show "1 \<in> set d"
    using neq by simp
qed


section \<open>CHAU: the cut and the stored threshold\<close>

lemma CHAU_eval_success:
  assumes "normalize_scores decision = Inr d"
  shows "CHAU_eval norm_ppf erfc self decision =
     (Inr (cut_scores (chau_prob erfc (chau_method self) d) (chau_criterion norm_ppf (length d))),
      self\<lparr>chau_thresh := Threshold (chau_criterion norm_ppf (length d)
          * (1 - np_min (chau_prob erfc (chau_method self) d))
          / np_max (chau_prob erfc (chau_method self) d))\<rparr>)"
proof -
  have "decision \<noteq> []"
    using assms by (auto simp: normalize_scores_def split: if_splits)
  then show ?thesis
    using assms by (simp add: CHAU_eval_def check_array_def Let_def)
qed

lemma normalize_scores_01: "normalize_scores [0, 1] = Inr [0, 1]"
  by (simp add: normalize_scores_def np_max_def np_min_def)

lemma np_std_01: "np_std [0, 1] = 1 / 2"
proof -
  have "sqrt (1 / 4) = 1 / 2"
    by (simp add: real_sqrt_divide)
  moreover have "np_std [0, 1] = sqrt (1 / 4)"
    by (simp add: np_std_def np_mean_def power2_eq_square)
  ultimately show ?thesis
    by simp
qed

lemma chau_prob_01: "chau_prob (\<lambda>x. 1 / (1 + x)) Gmean [0, 1] = [1, 1 / 3]"
  by (simp add: chau_prob_def stats_gmean_def np_std_01)



text \<open>
  C8. The labels of \<open>CHAU.eval\<close> are the cut of the probability array at the unscaled
  criterion, whatever \<open>thresh_\<close> held before the call; the call stores
  \<open>criterion * (1 - min(prob)) / max(prob)\<close> in \<open>thresh_\<close>, and this differs from the
  criterion that made the labels as soon as \<open>1 - min(prob)\<close> differs from \<open>max(prob)\<close>.
\<close>

theorem CHAU_thresh_is_not_the_cut:
  assumes "normalize_scores decision = Inr d"
    and "norm_ppf (1 / (4 * real (length decision))) \<noteq> 0"
    and "np_max (chau_prob erfc (chau_method self) d) \<noteq> 0"
    and "1 - np_min (chau_prob erfc (chau_method self) d)
           \<noteq> np_max (chau_prob erfc (chau_method self) d)"
  shows "fst (CHAU_eval norm_ppf erfc (self\<lparr>chau_thresh := t\<rparr>) decision) =
           Inr (cut_scores (chau_prob erfc (chau_method self) d)
                  (chau_criterion norm_ppf (length decision)))
       \<and> chau_thresh (snd (CHAU_eval norm_ppf erfc self decision)) =
           Threshold (chau_criterion norm_ppf (length decision)
             * (1 - np_min (chau_prob erfc (chau_method self) d))
             / np_max (chau_prob erfc (chau_method self) d))
       \<and> chau_thresh (snd (CHAU_eval norm_ppf erfc self decision)) \<noteq>
           Threshold (chau_criterion norm_ppf (length decision))"
proof -
  have len: "length d = length decision"
    using assms(1) by (rule normalize_scores_length)
  let ?c = "chau_criterion norm_ppf (length decision)"
  let ?mx = "np_max (chau_prob erfc (chau_method self) d)"
  let ?mn = "np_min (chau_prob erfc (chau_method self) d)"
  have c: "?c \<noteq> 0"
    using assms(2) by (simp add: chau_criterion_def)
  have "?c * (1 - ?mn) / ?mx \<noteq> ?c"
  proof
    assume "?c * (1 - ?mn) / ?mx = ?c"
    then have "?c * (1 - ?mn) = ?c * ?mx"
      using assms(3) by (simp add: field_simps)
    then have "1 - ?mn = ?mx"
      using c by simp
    with assms(4) show False
      by simp
  qed
  then show ?thesis
    using CHAU_eval_success [OF assms(1), of norm_ppf erfc self]
      CHAU_eval_success [OF assms(1), of norm_ppf erfc "self\<lparr>chau_thresh := t\<rparr>"] len
    by simp
qed

theorem CHAU_thresh_is_not_the_cut_witness:
  "normalize_scores [0, 1] = Inr [0, 1]
   \<and> (\<lambda>p::real. - 2 :: real) (1 / (4 * real (length [0, 1 :: real]))) \<noteq> 0
   \<and> np_max (chau_prob (\<lambda>x. 1 / (1 + x)) (chau_method (CHAU_init Gmean)) [0, 1]) \<noteq> 0
   \<and> 1 - np_min (chau_prob (\<lambda>x. 1 / (1 + x)) (chau_method (CHAU_init Gmean)) [0, 1])
        \<noteq> np_max (chau_prob (\<lambda>x. 1 / (1 + x)) (chau_method (CHAU_init Gmean)) [0, 1])
   \<and> chau_thresh (snd (CHAU_eval (\<lambda>p. - 2) (\<lambda>x. 1 / (1 + x)) (CHAU_init Gmean) [0, 1])) = Threshold (1 / 3)
   \<and> chau_criterion (\<lambda>p. - 2) (length [0, 1 :: real]) = 1 / 2"
proof -
  have m: "chau_method (CHAU_init Gmean) = Gmean"
    by (simp add: CHAU_init_def)
  have p: "(\<lambda>p::real. - 2 :: real) (1 / (4 * real (length [0, 1 :: real]))) \<noteq> 0"
    by simp
  have a: "np_max (chau_prob (\<lambda>x. 1 / (1 + x)) (chau_method (CHAU_init Gmean)) [0, 1]) \<noteq> 0"
    by (simp add: m chau_prob_01 np_max_def)
  have b: "1 - np_min (chau_prob (\<lambda>x. 1 / (1 + x)) (chau_method (CHAU_init Gmean)) [0, 1])
        \<noteq> np_max (chau_prob (\<lambda>x. 1 / (1 + x)) (chau_method (CHAU_init Gmean)) [0, 1])"
    by (simp add: m chau_prob_01 np_max_def np_min_def)
  have c: "chau_criterion (\<lambda>p. - 2) (length [0, 1 :: real]) = 1 / 2"
    by (simp add: chau_criterion_def)
  have "chau_thresh (snd (CHAU_eval (\<lambda>p. - 2) (\<lambda>x. 1 / (1 + x)) (CHAU_init Gmean) [0, 1])) = Threshold (1 / 3)"
    using CHAU_thresh_is_not_the_cut [OF normalize_scores_01 p a b]
    by (simp add: m chau_prob_01 np_max_def np_min_def chau_criterion_def)
  then show ?thesis
    using normalize_scores_01 p a b c by simp
qed

section \<open>AUCP: the scan of the tail areas\<close>

lemma np_linspace_4: "np_linspace 0 1 4 = [0, 1 / 3, 2 / 3, 1]"
  by (simp add: np_linspace_def upt_rec)






text \<open>
  So is the Gaussian-kernel estimate of bandwidth \<open>1/3\<close>: at the two scores it is
  proportional to \<open>1 + exp (- 9/2)\<close>, between them to \<open>exp (- 1/2) + exp (- 2)\<close>, which is
  at most \<open>2/3 + 1/3\<close>.
\<close>

lemma exp_neg_half: "exp (- (1 / 2) :: real) \<le> 2 / 3"
proof -
  have "1 + (1 / 2 :: real) \<le> exp (1 / 2)"
    by (rule exp_ge_add_one_self)
  then have "inverse (exp (1 / 2 :: real)) \<le> inverse (3 / 2)"
    by (intro le_imp_inverse_le) simp_all
  then show ?thesis
    by (simp add: exp_minus)
qed

lemma exp_neg_two: "exp (- 2 :: real) \<le> 1 / 3"
proof -
  have "1 + (2 :: real) \<le> exp 2"
    by (rule exp_ge_add_one_self)
  then have "inverse (exp (2 :: real)) \<le> inverse 3"
    by (intro le_imp_inverse_le) simp_all
  then show ?thesis
    by (simp add: exp_minus)
qed

lemma gaussian_kde_01:
  "\<exists>a b. gaussian_kde (1 / 3) [0, 1] (np_linspace 0 1 4) = [a, b, b, a] \<and> b < a"
proof -
  let ?c = "2 * (1 / 3) * sqrt (2 * pi)"
  let ?a = "(1 + exp (- (9 / 2))) / ?c"
  let ?b = "(exp (- (1 / 2)) + exp (- 2)) / ?c"
  have c: "0 < ?c"
    by simp
  have "exp (- (1 / 2) :: real) + exp (- 2) \<le> 1"
    using exp_neg_half exp_neg_two by linarith
  moreover have "(0::real) < exp (- (9 / 2))"
    by simp
  ultimately have "exp (- (1 / 2) :: real) + exp (- 2) < 1 + exp (- (9 / 2))"
    by linarith
  then have lt: "?b < ?a"
    using c by (simp add: divide_strict_right_mono)
  have "gaussian_kde (1 / 3) [0, 1] (np_linspace 0 1 4) = [?a, ?b, ?b, ?a]"
    by (simp add: gaussian_kde_def np_linspace_4 power2_eq_square add.commute)
  with lt show ?thesis
    by blast
qed

text \<open>
  What a returning loop returns: the first grid position, never the last one, whose tail
  area is below the bound. The default 1 is returned for no non-empty grid.
\<close>

lemma aucp_loop_result:
  assumes "aucp_loop dat_range val bound [k..<m] = Inr limit"
    and "m = length dat_range" and "length val = m" and "k < m"
  shows "\<exists>i a. k \<le> i \<and> Suc i < m \<and> limit = dat_range ! i
           \<and> auc (drop i dat_range) (drop i val) = Inr a \<and> a < bound
           \<and> (\<forall>j a'. k \<le> j \<and> j < i \<and> auc (drop j dat_range) (drop j val) = Inr a'
                  \<longrightarrow> \<not> a' < bound)"
  using assms
proof (induction "m - k" arbitrary: k)
  case 0
  then show ?case by simp
next
  case (Suc n)
  have up: "[k..<m] = k # [Suc k..<m]"
    using Suc.prems(4) by (simp add: upt_rec)
  show ?case
  proof (cases "Suc k < m")
    case False
    then have "length (drop k dat_range) < 2"
      using Suc.prems(2,4) by simp
    then have "auc (drop k dat_range) (drop k val) = Inl ValueError"
      by (simp add: auc_def)
    with Suc.prems(1) up show ?thesis
      by simp
  next
    case True
    then have "length (drop k dat_range) = length (drop k val)" "\<not> length (drop k dat_range) < 2"
      using Suc.prems(2,3) by simp_all
    then obtain a where a: "auc (drop k dat_range) (drop k val) = Inr a"
      by (simp add: auc_def)
    show ?thesis
    proof (cases "a < bound")
      case True
      with a Suc.prems(1) up have "limit = dat_range ! k"
        by simp
      with a True \<open>Suc k < m\<close> show ?thesis
        by (intro exI [of _ k] exI [of _ a]) simp
    next
      case False
      with a Suc.prems(1) up have rest: "aucp_loop dat_range val bound [Suc k..<m] = Inr limit"
        by simp
      have "n = m - Suc k"
        using Suc.hyps(2) by simp
      from Suc.hyps(1) [OF this rest Suc.prems(2,3) \<open>Suc k < m\<close>]
      obtain i b where i: "Suc k \<le> i" "Suc i < m" "limit = dat_range ! i"
        "auc (drop i dat_range) (drop i val) = Inr b" "b < bound"
        "\<forall>j a'. Suc k \<le> j \<and> j < i \<and> auc (drop j dat_range) (drop j val) = Inr a'
                  \<longrightarrow> \<not> a' < bound"
        by blast
      have "\<forall>j a'. k \<le> j \<and> j < i \<and> auc (drop j dat_range) (drop j val) = Inr a'
                  \<longrightarrow> \<not> a' < bound"
      proof (intro allI impI)
        fix j a'
        assume h: "k \<le> j \<and> j < i \<and> auc (drop j dat_range) (drop j val) = Inr a'"
        show "\<not> a' < bound"
        proof (cases "j = k")
          case True
          with h a False show ?thesis by simp
        next
          case False
          with h i(6) show ?thesis
            by (metis Suc_leI le_neq_implies_less)
        qed
      qed
      with i show ?thesis
        by (intro exI [of _ i] exI [of _ b]) simp
    qed
  qed
qed


lemma length_np_linspace: "length (np_linspace lo hi m) = m"
  by (simp add: np_linspace_def)

lemma AUCP_eval_returns:
  assumes "AUCP_eval kde self decision = (Inr labels, self')"
  shows "\<exists>d val tot i a.
           normalize_scores decision = Inr d
         \<and> normalize_scores (kde d (np_linspace 0 1 (length d * 2))) = Inr val
         \<and> auc (np_linspace 0 1 (length d * 2)) val = Inr tot
         \<and> Suc i < length d * 2
         \<and> labels = cut_scores d (np_linspace 0 1 (length d * 2) ! i)
         \<and> self' = self\<lparr>aucp_thresh := Threshold (np_linspace 0 1 (length d * 2) ! i)\<rparr>
         \<and> auc (drop i (np_linspace 0 1 (length d * 2))) (drop i val) = Inr a
         \<and> a < aucp_perc d * tot
         \<and> (\<forall>j a'. j < i \<and> auc (drop j (np_linspace 0 1 (length d * 2))) (drop j val) = Inr a'
                \<longrightarrow> \<not> a' < aucp_perc d * tot)"
proof -
  from assms obtain d where d: "normalize_scores decision = Inr d" and ne: "decision \<noteq> []"
    by (auto simp: AUCP_eval_def check_array_def split: sum.splits if_splits)
  let ?g = "np_linspace 0 1 (length d * 2)"
  from assms d ne obtain val where val: "normalize_scores (kde d ?g) = Inr val"
    by (auto simp: AUCP_eval_def check_array_def gen_kde_def split: sum.splits)
  from assms d ne val obtain tot where tot: "auc ?g val = Inr tot"
    by (auto simp: AUCP_eval_def check_array_def gen_kde_def split: sum.splits)
  from assms d ne val tot obtain limit where
    limit: "aucp_loop ?g val (aucp_perc d * tot) [0..<length ?g] = Inr limit"
    and res: "labels = cut_scores d limit" "self' = self\<lparr>aucp_thresh := Threshold limit\<rparr>"
    by (auto simp: AUCP_eval_def check_array_def gen_kde_def split: sum.splits)
  have lv: "length val = length ?g"
    using tot by (auto simp: auc_def split: if_splits)
  have "length d = length decision"
    using d by (auto simp: normalize_scores_def split: if_splits)
  then have pos: "0 < length ?g"
    using ne by (simp add: length_np_linspace)
  from aucp_loop_result [OF limit refl lv pos]
  obtain i a where i: "Suc i < length ?g" "limit = ?g ! i"
    "auc (drop i ?g) (drop i val) = Inr a" "a < aucp_perc d * tot"
    "\<forall>j a'. 0 \<le> j \<and> j < i \<and> auc (drop j ?g) (drop j val) = Inr a' \<longrightarrow> \<not> a' < aucp_perc d * tot"
    by blast
  show ?thesis
    using d val tot i res
    by (intro exI [of _ d] exI [of _ val] exI [of _ tot] exI [of _ i] exI [of _ a])
      (simp add: length_np_linspace)
qed

section \<open>EB: the second scan\<close>

lemma eb_scan_keep:
  "\<forall>e\<in>set es. \<bar>med - close\<bar> \<le> eb_dist med d e \<Longrightarrow>
     eb_scan med d es (close, limit) = (close, limit)"
  by (induction es) (auto simp: eb_dist_def)

lemma eb_scan_select:
  assumes "\<exists>e\<in>set es. eb_dist med d e < \<bar>med - close\<bar>"
  shows "\<exists>i<length es.
           eb_scan med d es (close, limit) = (eb_count d (es ! i), Some (eb_limit (es ! i)))
         \<and> eb_dist med d (es ! i) < \<bar>med - close\<bar>
         \<and> (\<forall>j<length es. eb_dist med d (es ! i) \<le> eb_dist med d (es ! j))
         \<and> (\<forall>j<i. eb_dist med d (es ! i) < eb_dist med d (es ! j))"
  using assms
proof (induction es arbitrary: close limit)
  case Nil
  then show ?case by simp
next
  case (Cons e es)
  show ?case
  proof (cases "eb_dist med d e < \<bar>med - close\<bar>")
    case True
    then have step: "eb_scan med d (e # es) (close, limit) =
        eb_scan med d es (eb_count d e, Some (eb_limit e))"
      by (simp add: eb_dist_def)
    show ?thesis
    proof (cases "\<exists>e'\<in>set es. eb_dist med d e' < \<bar>med - eb_count d e\<bar>")
      case False
      then have "\<forall>e'\<in>set es. \<bar>med - eb_count d e\<bar> \<le> eb_dist med d e'"
        by auto
      then have "eb_scan med d es (eb_count d e, Some (eb_limit e)) =
          (eb_count d e, Some (eb_limit e))"
        by (rule eb_scan_keep)
      moreover have "\<forall>j<length (e # es). eb_dist med d e \<le> eb_dist med d ((e # es) ! j)"
      proof (intro allI impI)
        fix j assume "j < length (e # es)"
        then show "eb_dist med d e \<le> eb_dist med d ((e # es) ! j)"
          using False by (cases j) (auto simp: eb_dist_def not_less)
      qed
      ultimately show ?thesis
        using step True by (intro exI [of _ 0]) simp
    next
      case better: True
      from Cons.IH [OF better, of "Some (eb_limit e)"]
      obtain i where i: "i < length es"
        "eb_scan med d es (eb_count d e, Some (eb_limit e)) =
           (eb_count d (es ! i), Some (eb_limit (es ! i)))"
        "eb_dist med d (es ! i) < \<bar>med - eb_count d e\<bar>"
        "\<forall>j<length es. eb_dist med d (es ! i) \<le> eb_dist med d (es ! j)"
        "\<forall>j<i. eb_dist med d (es ! i) < eb_dist med d (es ! j)"
        by blast
      have lt: "eb_dist med d (es ! i) < eb_dist med d e"
        using i(3) by (simp add: eb_dist_def)
      have all: "\<forall>j<length (e # es). eb_dist med d (es ! i) \<le> eb_dist med d ((e # es) ! j)"
      proof (intro allI impI)
        fix j assume "j < length (e # es)"
        then show "eb_dist med d (es ! i) \<le> eb_dist med d ((e # es) ! j)"
          using lt i(4) by (cases j) auto
      qed
      have first: "\<forall>j<Suc i. eb_dist med d (es ! i) < eb_dist med d ((e # es) ! j)"
      proof (intro allI impI)
        fix j assume "j < Suc i"
        then show "eb_dist med d (es ! i) < eb_dist med d ((e # es) ! j)"
          using lt i(5) by (cases j) auto
      qed
      show ?thesis
        using step i(1,2) lt True all first by (intro exI [of _ "Suc i"]) simp
    qed
  next
    case False
    then have step: "eb_scan med d (e # es) (close, limit) = eb_scan med d es (close, limit)"
      by (simp add: eb_dist_def)
    from False Cons.prems have "\<exists>e'\<in>set es. eb_dist med d e' < \<bar>med - close\<bar>"
      by auto
    from Cons.IH [OF this, of limit]
    obtain i where i: "i < length es"
      "eb_scan med d es (close, limit) = (eb_count d (es ! i), Some (eb_limit (es ! i)))"
      "eb_dist med d (es ! i) < \<bar>med - close\<bar>"
      "\<forall>j<length es. eb_dist med d (es ! i) \<le> eb_dist med d (es ! j)"
      "\<forall>j<i. eb_dist med d (es ! i) < eb_dist med d (es ! j)"
      by blast
    have lt: "eb_dist med d (es ! i) < eb_dist med d e"
      using i(3) False by simp
    have all: "\<forall>j<length (e # es). eb_dist med d (es ! i) \<le> eb_dist med d ((e # es) ! j)"
    proof (intro allI impI)
      fix j assume "j < length (e # es)"
      then show "eb_dist med d (es ! i) \<le> eb_dist med d ((e # es) ! j)"
        using lt i(4) by (cases j) auto
    qed
    have first: "\<forall>j<Suc i. eb_dist med d (es ! i) < eb_dist med d ((e # es) ! j)"
    proof (intro allI impI)
      fix j assume "j < Suc i"
      then show "eb_dist med d (es ! i) < eb_dist med d ((e # es) ! j)"
        using lt i(5) by (cases j) auto
    qed
    show ?thesis
      using step i(1,2,3) all first by (intro exI [of _ "Suc i"]) simp
  qed
qed

lemma eb_count_filter:
  "eb_count d e = real (length (filter (\<lambda>v. \<not> eb_limit e < v) d))"
proof -
  have "sum_list (cut_scores d l) + length (filter (\<lambda>v. \<not> l < v) d) = length d" for l
    by (induction d) (simp_all add: cut_scores_def)
  from this [of "eb_limit e"] show ?thesis
    unfolding eb_count_def by linarith
qed

lemma normalize_scores_nonneg:
  assumes "normalize_scores x = Inr d" and "v \<in> set d"
  shows "0 \<le> v"
proof -
  from assms(1) have ne: "x \<noteq> []" and neq: "np_max x \<noteq> np_min x"
    and d: "d = map (\<lambda>v. (v - np_min x) / (np_max x - np_min x)) x"
    by (auto simp: normalize_scores_def split: if_splits)
  from assms(2) d obtain u where u: "u \<in> set x" "v = (u - np_min x) / (np_max x - np_min x)"
    by auto
  have "np_min x \<le> u"
    using u(1) ne by (simp add: np_min_Min)
  moreover have "np_min x \<le> np_max x"
    using ne by (simp add: np_min_Min np_max_Max)
  ultimately show ?thesis
    using u(2) by simp
qed

lemma eb_limit_nonneg: "0 \<le> e \<Longrightarrow> e \<le> 1 \<Longrightarrow> 0 \<le> eb_limit e"
  by (simp add: eb_limit_def)

lemma eb_count_lower:
  assumes "0 \<le> e" and "e \<le> 1"
  shows "eb_count d 1 \<le> eb_count d e"
proof -
  have "length (filter (\<lambda>v. \<not> 0 < v) d) \<le> length (filter (\<lambda>v. \<not> eb_limit e < v) d)"
    using eb_limit_nonneg [OF assms] by (induction d) auto
  then show ?thesis
    by (simp add: eb_count_filter eb_limit_def)
qed

lemma eb_count_one_pos:
  assumes "0 \<in> set d"
  shows "1 \<le> eb_count d 1"
proof -
  have "0 \<in> set (filter (\<lambda>v. \<not> 0 < v) d)"
    using assms by simp
  then have "0 < length (filter (\<lambda>v. \<not> 0 < v) d)"
    by (rule length_pos_if_in_set)
  moreover have "eb_count d 1 = real (length (filter (\<lambda>v. \<not> 0 < v) d))"
    by (simp add: eb_count_filter eb_limit_def)
  ultimately show ?thesis
    by linarith
qed

lemma np_median_lower:
  assumes "\<forall>v\<in>set xs. c \<le> v" and "2 \<le> length xs"
  shows "c \<le> np_median xs"
proof -
  have in_set: "k < length xs \<Longrightarrow> c \<le> sort xs ! k" for k
    using assms(1) by (metis length_sort nth_mem set_sort)
  show ?thesis
  proof (cases "even (length xs)")
    case True
    have "c \<le> sort xs ! (length xs div 2 - 1)" "c \<le> sort xs ! (length xs div 2)"
      using assms(2) by (auto intro!: in_set)
    then show ?thesis
      using True by (simp add: np_median_def Let_def)
  next
    case False
    have "c \<le> sort xs ! (length xs div 2)"
      using assms(2) by (auto intro!: in_set)
    then show ?thesis
      using False by (simp add: np_median_def Let_def)
  qed
qed

lemma np_round_lower: "real_of_int k \<le> x \<Longrightarrow> real_of_int k \<le> np_round x"
proof -
  assume "real_of_int k \<le> x"
  then have "k \<le> \<lfloor>x\<rfloor>"
    by (simp add: le_floor_iff)
  then show ?thesis
    by (auto simp: np_round_def Let_def)
qed

lemma eb_med_lower:
  assumes "\<forall>i<5000. 0 \<le> rnd i \<and> rnd i \<le> 1"
  shows "eb_count d 1 \<le> eb_med rnd d"
proof -
  have "\<forall>v\<in>set (map (\<lambda>i. eb_count d (rnd i)) [0..<5000]). eb_count d 1 \<le> v"
    using assms by (auto intro: eb_count_lower)
  then have "eb_count d 1 \<le> np_median (map (\<lambda>i. eb_count d (rnd i)) [0..<5000])"
    by (rule np_median_lower) simp
  moreover have "eb_count d 1 = real_of_int (int (length (filter (\<lambda>v. \<not> eb_limit 1 < v) d)))"
    by (simp add: eb_count_filter)
  ultimately show ?thesis
    unfolding eb_med_def using np_round_lower by metis
qed

lemma np_linspace_last: "np_linspace 0 1 5000 ! 4999 = 1"
  by (simp add: np_linspace_def)

lemma eb_candidate_exists:
  assumes "normalize_scores decision = Inr d" and "\<forall>i<5000. 0 \<le> rnd i \<and> rnd i \<le> 1"
  shows "\<exists>e\<in>set (np_linspace 0 1 5000). eb_dist (eb_med rnd d) d e < \<bar>eb_med rnd d - 0\<bar>"
proof -
  have "1 \<le> eb_count d 1"
    using normalize_scores_has_0_1(1) [OF assms(1)] by (rule eb_count_one_pos)
  moreover have "eb_count d 1 \<le> eb_med rnd d"
    using assms(2) by (rule eb_med_lower)
  ultimately have "eb_dist (eb_med rnd d) d 1 < \<bar>eb_med rnd d - 0\<bar>"
    by (simp add: eb_dist_def)
  moreover have "1 \<in> set (np_linspace 0 1 5000)"
    using nth_mem [of 4999 "np_linspace 0 1 5000"] np_linspace_last
    by (simp add: length_np_linspace)
  ultimately show ?thesis
    by blast
qed

text \<open>
  C4. For every valid input, the second phase of \<open>EB.eval\<close> scans the 5000 evenly spaced
  eccentricities in increasing order and replaces the candidate only on a strictly smaller
  distance of its inlier count to the median count of the first phase. The threshold it
  returns belongs to the first grid position that attains the least distance among all
  5000 positions: ties keep the earlier position, and the choice is a global minimizer of
  the distance.
\<close>

theorem EB_eval_selects_first_minimizer:
  assumes "normalize_scores decision = Inr d" and "\<forall>i<5000. 0 \<le> rnd i \<and> rnd i \<le> 1"
  shows "\<exists>i<5000.
           EB_eval rnd self decision =
             (Inr (cut_scores d (eb_limit (np_linspace 0 1 5000 ! i))),
              self\<lparr>eb_thresh := Threshold (eb_limit (np_linspace 0 1 5000 ! i))\<rparr>)
         \<and> (\<forall>j<5000. eb_dist (eb_med rnd d) d (np_linspace 0 1 5000 ! i)
                        \<le> eb_dist (eb_med rnd d) d (np_linspace 0 1 5000 ! j))
         \<and> (\<forall>j<i. eb_dist (eb_med rnd d) d (np_linspace 0 1 5000 ! i)
                        < eb_dist (eb_med rnd d) d (np_linspace 0 1 5000 ! j))"
proof -
  let ?ec = "np_linspace 0 1 5000"
  from eb_scan_select [OF eb_candidate_exists [OF assms], of None]
  obtain i where i: "i < length ?ec"
    "eb_scan (eb_med rnd d) d ?ec (0, None) = (eb_count d (?ec ! i), Some (eb_limit (?ec ! i)))"
    "\<forall>j<length ?ec. eb_dist (eb_med rnd d) d (?ec ! i) \<le> eb_dist (eb_med rnd d) d (?ec ! j)"
    "\<forall>j<i. eb_dist (eb_med rnd d) d (?ec ! i) < eb_dist (eb_med rnd d) d (?ec ! j)"
    by blast
  have ne: "decision \<noteq> []"
    using assms(1) by (auto simp: normalize_scores_def split: if_splits)
  have "EB_eval rnd self decision =
      (Inr (cut_scores d (eb_limit (?ec ! i))), self\<lparr>eb_thresh := Threshold (eb_limit (?ec ! i))\<rparr>)"
    using ne assms(1) i(2) by (simp add: EB_eval_def check_array_def)
  then show ?thesis
    using i(1,3,4) by (intro exI [of _ i]) (simp add: length_np_linspace)
qed

theorem EB_eval_selects_first_minimizer_witness:
  "normalize_scores [0, 1] = Inr [0, 1]
   \<and> (\<exists>i<5000.
         EB_eval (\<lambda>i. 1 / 2) EB_init [0, 1] =
           (Inr (cut_scores [0, 1] (eb_limit (np_linspace 0 1 5000 ! i))),
            EB_init\<lparr>eb_thresh := Threshold (eb_limit (np_linspace 0 1 5000 ! i))\<rparr>))"
proof -
  have r: "\<forall>i<5000. 0 \<le> (\<lambda>i::nat. 1 / 2 :: real) i \<and> (\<lambda>i::nat. 1 / 2 :: real) i \<le> 1"
    by simp
  from EB_eval_selects_first_minimizer [OF normalize_scores_01 r, of EB_init]
  obtain i where "i < 5000"
    "EB_eval (\<lambda>i. 1 / 2) EB_init [0, 1] =
           (Inr (cut_scores [0, 1] (eb_limit (np_linspace 0 1 5000 ! i))),
            EB_init\<lparr>eb_thresh := Threshold (eb_limit (np_linspace 0 1 5000 ! i))\<rparr>)"
    by blast
  then have "\<exists>i<5000.
         EB_eval (\<lambda>i. 1 / 2) EB_init [0, 1] =
           (Inr (cut_scores [0, 1] (eb_limit (np_linspace 0 1 5000 ! i))),
            EB_init\<lparr>eb_thresh := Threshold (eb_limit (np_linspace 0 1 5000 ! i))\<rparr>)"
    by blast
  with normalize_scores_01 show ?thesis
    by (rule conjI)
qed

lemma np_median_const:
  assumes "\<forall>v\<in>set xs. v = c" and "2 \<le> length xs"
  shows "np_median xs = c"
proof -
  have in_set: "k < length xs \<Longrightarrow> sort xs ! k = c" for k
    using assms(1) by (metis length_sort nth_mem set_sort)
  have "sort xs ! (length xs div 2 - 1) = c" "sort xs ! (length xs div 2) = c"
    using assms(2) by (auto intro!: in_set)
  then show ?thesis
    by (simp add: np_median_def Let_def)
qed

lemma np_median_map_const: "2 \<le> n \<Longrightarrow> np_median (map (\<lambda>i. c) [0..<n]) = c"
  by (rule np_median_const) auto

lemma eb_count_half: "eb_count [0, 1] (1 / 2) = 1"
  by (simp add: eb_count_def eb_limit_def cut_scores_def)

lemma eb_med_half: "eb_med (\<lambda>i. 1 / 2) [0, 1] = 1"
proof -
  have "(2::nat) \<le> 5000"
    by simp
  then have "np_median (map (\<lambda>i. eb_count [0, 1] (1 / 2)) [0..<5000]) = eb_count [0, 1] (1 / 2)"
    by (rule np_median_map_const)
  then show ?thesis
    unfolding eb_med_def by (simp only: eb_count_half) (simp add: np_round_def)
qed

lemma np_linspace_5000:
  "np_linspace 0 1 5000 =
     0 # (1 / 4999) # map (\<lambda>i. 0 + real i * ((1 - 0) / real (5000 - 1))) [Suc (Suc 0)..<5000]"
proof -
  have "[0..<5000] = 0 # [Suc 0..<5000]"
    by (rule upt_conv_Cons) simp
  moreover have "[Suc 0..<5000] = Suc 0 # [Suc (Suc 0)..<5000]"
    by (rule upt_conv_Cons) simp
  ultimately have u: "[0..<5000] = 0 # Suc 0 # [Suc (Suc 0)..<5000]"
    by (simp only:)
  show ?thesis
    unfolding np_linspace_def u by simp
qed

lemma eb_scan_half:
  "eb_scan 1 [0, 1] (np_linspace 0 1 5000) (0, None) = (1, Some (2499 / 2500))"
proof -
  have c0: "eb_count [0, 1] 0 = 2"
    by (simp add: eb_count_def eb_limit_def cut_scores_def)
  have l1: "eb_limit (1 / 4999) = 2499 / 2500"
    by (simp add: eb_limit_def)
  have c1: "eb_count [0, 1] (1 / 4999) = 1"
    by (simp add: eb_count_def l1 cut_scores_def)
  have keep: "eb_scan 1 [0, 1] es (1, Some (2499 / 2500)) = (1, Some (2499 / 2500))" for es
    by (rule eb_scan_keep) (simp add: eb_dist_def)
  have "eb_scan 1 [0, 1] (0 # (1 / 4999) # es) (0, None) = (1, Some (2499 / 2500))" for es
    by (simp add: c0 c1 l1 keep)
  then show ?thesis
    unfolding np_linspace_5000 .
qed

lemma np_linspace_second: "np_linspace 0 1 5000 ! 1 = 1 / 4999"
  unfolding np_linspace_5000 by simp

text \<open>
  On the scores \<open>[0, 1]\<close> with every draw equal to one half, the median count is 1; the
  scan passes the first grid position (count 2) and accepts the second, \<open>1/4999\<close>, whose
  count is 1. The chosen threshold has distance 0 to the median count, the least distance
  there can be: the greedy choice is a global minimizer.
\<close>

theorem EB_eval_selected_is_global_minimizer:
  "EB_eval (\<lambda>i. 1 / 2) EB_init [0, 1] = (Inr [0, 1], \<lparr>eb_thresh = Threshold (2499 / 2500)\<rparr>)
   \<and> eb_limit (np_linspace 0 1 5000 ! 1) = 2499 / 2500
   \<and> eb_dist (eb_med (\<lambda>i. 1 / 2) [0, 1]) [0, 1] (np_linspace 0 1 5000 ! 1) = 0"
proof -
  have l1: "eb_limit (1 / 4999) = 2499 / 2500"
    by (simp add: eb_limit_def)
  have c1: "eb_count [0, 1] (1 / 4999) = 1"
    by (simp add: eb_count_def l1 cut_scores_def)
  have s: "snd (eb_scan (eb_med (\<lambda>i. 1 / 2) [0, 1]) [0, 1] (np_linspace 0 1 5000) (0, None))
      = Some (2499 / 2500)"
    unfolding eb_med_half eb_scan_half by simp
  have ev: "EB_eval (\<lambda>i. 1 / 2) EB_init [0, 1] =
      (Inr [0, 1], \<lparr>eb_thresh = Threshold (2499 / 2500)\<rparr>)"
    by (simp add: EB_eval_def EB_init_def check_array_def normalize_scores_01 s cut_scores_def)
  have "eb_dist (eb_med (\<lambda>i. 1 / 2) [0, 1]) [0, 1] (1 / 4999) = 0"
    unfolding eb_med_half by (simp add: eb_dist_def c1)
  then show ?thesis
    unfolding np_linspace_second using ev l1 by (simp only: simp_thms)
qed

end
